theory Spec2Isabelle
  imports Complex_Main "HOL-Library.Word"
begin

section \<open>The INA226 continuous monitor (src/arduino/monitoramento.ino)\<close>

text \<open>
  The sketch runs on an ESP32-C6: \<open>unsigned long\<close> is a 32-bit word whose arithmetic
  wraps, and \<open>millis()\<close> is such a word. A \<open>float\<close> is modelled by a real number:
  rounding is left out, every other step of the arithmetic is the source's.
  \<open>abs\<close> is the absolute value of a \<open>float\<close>, its argument evaluated once (the
  \<open>std::abs\<close> of the ESP32 core). The calls that only configure the serial port, the
  bus or the sensor (\<open>Serial.begin\<close>, \<open>Wire.begin\<close>, \<open>INA.setAverage\<close> and the
  like) touch neither the globals nor the output and are left out.
\<close>

subsection \<open>Constants and globals (lines 13 to 26)\<close>

type_synonym ulong = "32 word"

definition SHUNT_RESISTANCE :: real where
  "SHUNT_RESISTANCE = 0.1"

definition MAX_CURRENT :: real where
  "MAX_CURRENT = 0.5"

definition CORRECTION_FACTOR :: real where
  "CORRECTION_FACTOR = 0.968"

definition TRANSMISSION_INTERVAL :: ulong where
  "TRANSMISSION_INTERVAL = 50"

record globals =
  sessionStartTime :: ulong
  sampleCount :: ulong
  baselineCurrent :: real
  totalEnergy :: real
  lastTransmission :: ulong

text \<open>The initialisers of the global variables, as the sketch declares them.\<close>

definition boot :: globals where
  "boot = \<lparr>sessionStartTime = 0, sampleCount = 0, baselineCurrent = 0,
            totalEnergy = 0, lastTransmission = 0\<rparr>"

subsection \<open>The outside world\<close>

text \<open>
  What the INA226 answers during one pass: \<open>INA.isConversionReady()\<close>,
  \<open>INA.getBusVoltage()\<close> and \<open>INA.getCurrent_mA()\<close>. The two values are read only
  after the flag was seen set.
\<close>

record sensor =
  isConversionReady :: bool
  getBusVoltage :: real
  getCurrent_mA :: real

text \<open>
  What the sketch does to the serial port, in order: \<open>Serial.println\<close> of a literal,
  \<open>Serial.printf\<close> of a format with its arguments (the decimal rendering is not
  modelled), and the pauses \<open>delay(ms)\<close> of \<open>setup()\<close> between them.
\<close>

datatype arg = ArgULong ulong | ArgFloat real | ArgInt int

datatype event = Println string | Printf string "arg list" | Delay nat

subsection \<open>loop() (lines 108 to 142)\<close>

text \<open>The six arguments of the \<open>printf\<close> of line 131: one line of data.\<close>

record SampleRecord =
  r_timestamp :: ulong
  r_voltage :: real
  r_current :: real
  r_netCurrent :: real
  r_power :: real
  r_totalEnergy :: real

definition data_format :: string where
  "data_format = ''%lu,%.6f,%.4f,%.4f,%.4f,%.6f'' @ [CHR 0x0A]"

definition data_line :: "SampleRecord \<Rightarrow> event" where
  "data_line r =
     Printf data_format
       [ArgULong (r_timestamp r), ArgFloat (r_voltage r), ArgFloat (r_current r),
        ArgFloat (r_netCurrent r), ArgFloat (r_power r), ArgFloat (r_totalEnergy r)]"

text \<open>
  One call of \<open>loop()\<close>: the globals before, the value \<open>millis()\<close> returns at line 110
  and the sensor's answers; the globals after and the line printed, if any.
\<close>

definition loop :: "globals \<Rightarrow> ulong \<Rightarrow> sensor \<Rightarrow> globals \<times> SampleRecord option" where
  "loop g currentMillis ina =
     (if currentMillis - lastTransmission g \<ge> TRANSMISSION_INTERVAL then
        if isConversionReady ina then
          let voltage = getBusVoltage ina;
              current = abs (getCurrent_mA ina) * CORRECTION_FACTOR;
              power_mW = voltage * current;
              netCurrent = current - baselineCurrent g;
              timestamp = currentMillis - sessionStartTime g;
              g1 = g\<lparr>sampleCount := sampleCount g + 1\<rparr>;
              deltaTime = real (unat (currentMillis - lastTransmission g1)) / 1000 / 3600;
              g2 = g1\<lparr>totalEnergy := totalEnergy g1 + power_mW * deltaTime\<rparr>
          in (g2\<lparr>lastTransmission := currentMillis\<rparr>,
              Some \<lparr>r_timestamp = timestamp, r_voltage = voltage, r_current = current,
                    r_netCurrent = netCurrent, r_power = power_mW,
                    r_totalEnergy = totalEnergy g2\<rparr>)
        else (g, None)
      else (g, None))"

text \<open>
  The Arduino core calls \<open>loop()\<close> again and again. A run is the list of its passes, each
  with the clock and the sensor it saw; \<open>emitted\<close> is the log of the passes that printed:
  the clock of the pass, the sensor's answers, the line, and the globals after it.
\<close>

record emission =
  e_millis :: ulong
  e_sensor :: sensor
  e_line :: SampleRecord
  e_after :: globals

fun emitted :: "globals \<Rightarrow> (ulong \<times> sensor) list \<Rightarrow> emission list" where
  "emitted g [] = []"
| "emitted g ((now, ina) # ticks) =
     (case loop g now ina of
        (g', None) \<Rightarrow> emitted g' ticks
      | (g', Some r) \<Rightarrow> \<lparr>e_millis = now, e_sensor = ina, e_line = r, e_after = g'\<rparr> # emitted g' ticks)"

subsection \<open>measureBaseline() (lines 86 to 106)\<close>

text \<open>
  The \<open>while\<close> of line 92. Each element of the list is one evaluation of the loop
  condition: what \<open>millis()\<close> returned there and, when the body runs, what the sensor
  answered. \<open>delay(10)\<close> only lets time pass: the next element carries the later clock.
  \<open>None\<close>: the list ends before the loop does.
\<close>

fun measureBaseline_loop ::
  "ulong \<Rightarrow> real \<Rightarrow> int \<Rightarrow> (ulong \<times> sensor) list \<Rightarrow> (real \<times> int) option" where
  "measureBaseline_loop startTime sm samples [] = None"
| "measureBaseline_loop startTime sm samples ((now, ina) # polls) =
     (if now - startTime < 2000 then
        if isConversionReady ina then
          measureBaseline_loop startTime
            (sm + abs (getCurrent_mA ina) * CORRECTION_FACTOR) (samples + 1) polls
        else measureBaseline_loop startTime sm samples polls
      else Some (sm, samples))"

definition measureBaseline :: "globals \<Rightarrow> ulong \<Rightarrow> (ulong \<times> sensor) list \<Rightarrow> globals option" where
  "measureBaseline g startTime polls =
     (case measureBaseline_loop startTime 0 0 polls of
        None \<Rightarrow> None
      | Some (sm, samples) \<Rightarrow>
          Some (if samples > 0 then g\<lparr>baselineCurrent := sm / real_of_int samples\<rparr>
                else g\<lparr>baselineCurrent := 0\<rparr>))"

subsection \<open>setup() (lines 28 to 84)\<close>

text \<open>The answers of the calls \<open>setup()\<close> makes, in the order it makes them.\<close>

record setup_env =
  INA_begin :: bool
  setMaxCurrentShunt :: int
  getCurrentLSB_mA :: real
  baseline_startTime :: ulong
  baseline_polls :: "(ulong \<times> sensor) list"
  getManufacturerID :: int
  getDieID :: int
  getFreeHeap :: int
  session_millis :: ulong

definition header :: "event list" where
  "header =
     [Delay 2000,
      Println ''# INA226 ESP32C6 Monitor - Continuous Mode'',
      Println ''# Version: 1.0'',
      Println ''# Shunt: 100mOhm (R100)'',
      Println ''# Correction Factor: 0.968'']"

definition check_connections :: event where
  "check_connections = Println ''# ERROR: Check connections SDA=GPIO21 SCL=GPIO22''"

definition DATA_START :: event where
  "DATA_START = Println ''# DATA_START''"

text \<open>
  The \<open>while(1)\<close> of line 45 has no exit. The number counts the iterations watched so
  far; the result is the output after them.
\<close>

fun error_loop :: "nat \<Rightarrow> event list \<Rightarrow> event list" where
  "error_loop 0 out = out"
| "error_loop (Suc n) out = error_loop n (out @ [check_connections, Delay 5000])"

text \<open>
  \<open>setup_sketch\<close> is \<open>setup()\<close> (the bare name is a keyword of Isabelle).
  \<open>Returned g out\<close>: \<open>setup()\<close> returned with globals \<open>g\<close> after the output \<open>out\<close>.
  \<open>Inside out\<close>: it is still inside one of its loops, after the output \<open>out\<close>.
\<close>

datatype setup_result = Returned globals "event list" | Inside "event list"

definition setup_sketch :: "nat \<Rightarrow> setup_env \<Rightarrow> globals \<Rightarrow> setup_result" where
  "setup_sketch n env g =
     (if \<not> INA_begin env then
        Inside (error_loop n (header @ [Println ''# ERROR: INA226 not detected!'']))
      else
        let out1 = header
              @ (if setMaxCurrentShunt env \<noteq> 0
                 then [Printf (''# Warning: Config result 0x%04X'' @ [CHR 0x0A])
                         [ArgInt (setMaxCurrentShunt env)]]
                 else [])
              @ [Printf (''# Current LSB: %.6f mA'' @ [CHR 0x0A]) [ArgFloat (getCurrentLSB_mA env)],
                 Printf (''# Power LSB: %.6f mW'' @ [CHR 0x0A]) [ArgFloat (getCurrentLSB_mA env * 25)],
                 Println ''# Measuring baseline...'']
        in case measureBaseline g (baseline_startTime env) (baseline_polls env) of
             None \<Rightarrow> Inside out1
           | Some g1 \<Rightarrow>
               Returned (g1\<lparr>sessionStartTime := session_millis env, sampleCount := 0\<rparr>)
                 (out1
                  @ [Printf (''# Baseline current: %.2f mA'' @ [CHR 0x0A]) [ArgFloat (baselineCurrent g1)],
                     Printf (''# Manufacturer ID: 0x%04X'' @ [CHR 0x0A]) [ArgInt (getManufacturerID env)],
                     Printf (''# Die ID: 0x%04X'' @ [CHR 0x0A]) [ArgInt (getDieID env)],
                     Printf (''# Free RAM: %d bytes'' @ [CHR 0x0A]) [ArgInt (getFreeHeap env)],
                     Println ''# Starting continuous monitoring...'',
                     Println ''# Format: Timestamp(ms),Voltage(V),Current(mA),CurrentNet(mA),Power(mW),Energy(mWh)'',
                     DATA_START]))"

text \<open>
  The whole program, as the Arduino core runs it: \<open>setup()\<close> once from the initial
  globals, then, if it returns, \<open>loop()\<close> over and over. The result is the serial output.
\<close>

definition program :: "nat \<Rightarrow> setup_env \<Rightarrow> (ulong \<times> sensor) list \<Rightarrow> event list" where
  "program n env ticks =
     (case setup_sketch n env boot of
        Inside out \<Rightarrow> out
      | Returned g out \<Rightarrow> out @ map (\<lambda>e. data_line (e_line e)) (emitted g ticks))"

fun returned_globals :: "setup_result \<Rightarrow> globals option" where
  "returned_globals (Returned g out) = Some g"
| "returned_globals (Inside out) = None"

subsection \<open>Reading a run\<close>

text \<open>
  The globals with which the pass that printed entry \<open>i\<close> of a log started: those the
  run started with, or those the entry before left.
\<close>

definition before :: "globals \<Rightarrow> emission list \<Rightarrow> nat \<Rightarrow> globals" where
  "before g es i = (if i = 0 then g else e_after (es ! (i - 1)))"

text \<open>The sensor's answers at the polls of a calibration window that found it ready.\<close>

definition ready_polls :: "(ulong \<times> sensor) list \<Rightarrow> sensor list" where
  "ready_polls polls = filter isConversionReady (map snd polls)"

text \<open>
  The baseline in the specification's words, to compare \<open>measureBaseline\<close> with: the sum
  of \<open>abs(value) * correctionFactor\<close> over the ready samples divided by their count, or
  0 when there were none.
\<close>

definition spec_baseline :: "sensor list \<Rightarrow> real" where
  "spec_baseline rs =
     (if rs = [] then 0
      else (\<Sum>ina\<leftarrow>rs. abs (getCurrent_mA ina) * CORRECTION_FACTOR) / real (length rs))"

subsection \<open>Concrete inputs\<close>

definition ready_5V_100mA :: sensor where
  "ready_5V_100mA = \<lparr>isConversionReady = True, getBusVoltage = 5, getCurrent_mA = 100\<rparr>"

definition ready_5V_minus5mA :: sensor where
  "ready_5V_minus5mA = \<lparr>isConversionReady = True, getBusVoltage = 5, getCurrent_mA = - 5\<rparr>"

definition ready_10mA :: sensor where
  "ready_10mA = \<lparr>isConversionReady = True, getBusVoltage = 5, getCurrent_mA = 10\<rparr>"

definition ready_minus20mA :: sensor where
  "ready_minus20mA = \<lparr>isConversionReady = True, getBusVoltage = 5, getCurrent_mA = - 20\<rparr>"

definition not_ready :: sensor where
  "not_ready = \<lparr>isConversionReady = False, getBusVoltage = 0, getCurrent_mA = 0\<rparr>"

text \<open>
  A start-up with the sensor present: the calibration window opens at 2000 ms, finds the
  sensor ready twice (10 mA and -20 mA, so the baseline is 14.52 mA) and closes at the
  poll of 4000 ms; the session starts at 4000 ms.
\<close>

definition env0 :: setup_env where
  "env0 = \<lparr>INA_begin = True, setMaxCurrentShunt = 0, getCurrentLSB_mA = 1 / 50,
            baseline_startTime = 2000,
            baseline_polls = [(2000, ready_10mA), (2010, not_ready), (3990, ready_minus20mA),
                              (4000, not_ready)],
            getManufacturerID = 0x5449, getDieID = 0x2260, getFreeHeap = 300000,
            session_millis = 4000\<rparr>"

text \<open>The same start-up with a sensor that is never ready during the window.\<close>

definition env_stalled :: setup_env where
  "env_stalled =
     env0\<lparr>baseline_polls := [(2000, not_ready), (3000, not_ready), (4000, not_ready)]\<rparr>"

text \<open>The same start-up with no sensor on the bus.\<close>

definition env_absent :: setup_env where
  "env_absent = env0\<lparr>INA_begin := False\<rparr>"

text \<open>The globals \<open>setup()\<close> leaves at \<open>env0\<close>.\<close>

definition g_session :: globals where
  "g_session = boot\<lparr>baselineCurrent := 363 / 25, sessionStartTime := 4000\<rparr>"

definition g_4000 :: globals where
  "g_4000 = boot\<lparr>sessionStartTime := 4000\<rparr>"

definition g_base12 :: globals where
  "g_base12 = boot\<lparr>sessionStartTime := 4000, baselineCurrent := 12\<rparr>"

text \<open>Four passes: one prints, one comes too early, one finds no sample, one prints.\<close>

definition T4 :: "(ulong \<times> sensor) list" where
  "T4 = [(4050, ready_5V_100mA), (4070, ready_5V_100mA), (4080, not_ready),
         (4150, ready_5V_100mA)]"

text \<open>One pass with a reading below the baseline of \<open>g_base12\<close>.\<close>

definition T_low :: "(ulong \<times> sensor) list" where
  "T_low = [(4050, ready_5V_minus5mA)]"

text \<open>
  Two passes 50 ms apart, the first after the 32-bit clock has wrapped: \<open>millis()\<close> is
  3990 again, 4294967286 ms after the session started at 4000.
\<close>

definition T_wrap :: "(ulong \<times> sensor) list" where
  "T_wrap = [(3990, ready_5V_100mA), (4040, ready_5V_100mA)]"

section \<open>Evaluation and single steps\<close>

lemmas ev = boot_def loop_def Let_def TRANSMISSION_INTERVAL_def CORRECTION_FACTOR_def
  ready_5V_100mA_def ready_5V_minus5mA_def ready_10mA_def ready_minus20mA_def not_ready_def
  g_4000_def g_base12_def g_session_def T4_def T_low_def T_wrap_def

lemmas ev_setup = env0_def setup_sketch_def measureBaseline_def header_def DATA_START_def
  check_connections_def

subsection \<open>One pass of loop()\<close>

lemma loop_None: "loop g now ina = (g', None) \<Longrightarrow> g' = g"
  by (simp add: loop_def Let_def split: if_splits)

lemma loop_Some:
  assumes "loop g now ina = (g', Some r)"
  shows "TRANSMISSION_INTERVAL \<le> now - lastTransmission g"
    and "isConversionReady ina"
    and "r_timestamp r = now - sessionStartTime g"
    and "r_voltage r = getBusVoltage ina"
    and "r_current r = abs (getCurrent_mA ina) * CORRECTION_FACTOR"
    and "r_power r = getBusVoltage ina * (abs (getCurrent_mA ina) * CORRECTION_FACTOR)"
    and "r_netCurrent r = abs (getCurrent_mA ina) * CORRECTION_FACTOR - baselineCurrent g"
    and "r_totalEnergy r = totalEnergy g'"
    and "totalEnergy g'
           = totalEnergy g + r_power r * (real (unat (now - lastTransmission g)) / 1000 / 3600)"
    and "lastTransmission g' = now"
    and "sampleCount g' = sampleCount g + 1"
    and "sessionStartTime g' = sessionStartTime g"
    and "baselineCurrent g' = baselineCurrent g"
  using assms by (auto simp add: loop_def Let_def split: if_splits)

text \<open>Adding to a 32-bit word without passing \<open>2 ^ 32\<close> makes it larger.\<close>

lemma word_add_no_wrap_less:
  fixes a d :: ulong
  assumes "unat a + unat d < 2 ^ 32" and "d \<noteq> 0"
  shows "a < a + d"
proof -
  from assms(1) have "unat (a + d) = unat a + unat d"
    by (simp add: unat_add_lem [symmetric])
  moreover from assms(2) have "0 < unat d"
    by (simp add: unat_gt_0)
  ultimately show ?thesis
    by (simp add: word_less_nat_alt)
qed

subsection \<open>Runs of loop()\<close>

text \<open>
  Every entry of the log was printed by a pass of \<open>loop()\<close> that started from the
  globals the entry before had left: the passes in between changed nothing.
\<close>

lemma emitted_nth:
  "i < length (emitted g ticks) \<Longrightarrow>
   loop (before g (emitted g ticks) i)
        (e_millis (emitted g ticks ! i)) (e_sensor (emitted g ticks ! i))
     = (e_after (emitted g ticks ! i), Some (e_line (emitted g ticks ! i)))"
proof (induction ticks arbitrary: g i)
  case Nil
  then show ?case by simp
next
  case (Cons t ticks)
  obtain now ina where t: "t = (now, ina)" by (cases t)
  obtain g' o' where l: "loop g now ina = (g', o')" by (cases "loop g now ina")
  show ?case
  proof (cases o')
    case None
    with l have "g' = g" by (simp add: loop_None)
    with Cons t l None show ?thesis by simp
  next
    case (Some r)
    show ?thesis
    proof (cases i)
      case 0
      with t l Some show ?thesis by (simp add: before_def)
    next
      case (Suc j)
      with Cons.prems t l Some have "j < length (emitted g' ticks)" by simp
      from Cons.IH [OF this] Suc t l Some show ?thesis
        by (cases j) (simp_all add: before_def)
    qed
  qed
qed

text \<open>
  No pass writes \<open>baselineCurrent\<close> or \<open>sessionStartTime\<close>: every entry of the log was
  printed from globals that still hold the values the run started with.
\<close>

lemma emitted_mem:
  "e \<in> set (emitted g ticks) \<Longrightarrow>
   \<exists>g1. loop g1 (e_millis e) (e_sensor e) = (e_after e, Some (e_line e))
      \<and> baselineCurrent g1 = baselineCurrent g \<and> sessionStartTime g1 = sessionStartTime g"
proof (induction ticks arbitrary: g)
  case Nil
  then show ?case by simp
next
  case (Cons t ticks)
  obtain now ina where t: "t = (now, ina)" by (cases t)
  obtain g' o' where l: "loop g now ina = (g', o')" by (cases "loop g now ina")
  show ?case
  proof (cases o')
    case None
    with l have "g' = g" by (simp add: loop_None)
    with Cons t l None show ?thesis by simp
  next
    case (Some r)
    with l have keep: "baselineCurrent g' = baselineCurrent g"
      "sessionStartTime g' = sessionStartTime g"
      by (simp_all add: loop_Some)
    from Cons.prems t l Some
    consider "e = \<lparr>e_millis = now, e_sensor = ina, e_line = r, e_after = g'\<rparr>"
      | "e \<in> set (emitted g' ticks)" by auto
    then show ?thesis
    proof cases
      case 1
      with l Some show ?thesis by auto
    next
      case 2
      from Cons.IH [OF this] keep show ?thesis by auto
    qed
  qed
qed

subsection \<open>The calibration window and setup()\<close>

lemma measureBaseline_loop_window:
  assumes "\<forall>p \<in> set pre. fst p - startTime < 2000" and "\<not> t_end - startTime < 2000"
  shows "measureBaseline_loop startTime sm n (pre @ (t_end, x) # rest)
    = Some (sm + (\<Sum>ina\<leftarrow>ready_polls pre. abs (getCurrent_mA ina) * CORRECTION_FACTOR),
            n + int (length (ready_polls pre)))"
  using assms
proof (induction pre arbitrary: sm n)
  case Nil
  then show ?case by (simp add: ready_polls_def)
next
  case (Cons p pre)
  obtain now ina where p: "p = (now, ina)" by (cases p)
  from Cons.prems p have w: "now - startTime < 2000" by simp
  from Cons.prems have rest: "\<forall>p \<in> set pre. fst p - startTime < 2000" by simp
  show ?case
  proof (cases "isConversionReady ina")
    case True
    with p w Cons.IH [OF rest Cons.prems(2)] show ?thesis
      by (simp add: ready_polls_def algebra_simps)
  next
    case False
    with p w Cons.IH [OF rest Cons.prems(2)] show ?thesis
      by (simp add: ready_polls_def)
  qed
qed

lemma measureBaseline_window:
  assumes "\<forall>p \<in> set pre. fst p - startTime < 2000" and "\<not> t_end - startTime < 2000"
  shows "measureBaseline g startTime (pre @ (t_end, x) # rest)
    = Some (g\<lparr>baselineCurrent := spec_baseline (ready_polls pre)\<rparr>)"
  by (simp add: measureBaseline_def measureBaseline_loop_window [OF assms] spec_baseline_def)

lemma setup_Returned:
  assumes "setup_sketch n env g0 = Returned g out"
  shows "INA_begin env"
    and "\<exists>g1. measureBaseline g0 (baseline_startTime env) (baseline_polls env) = Some g1
           \<and> g = g1\<lparr>sessionStartTime := session_millis env, sampleCount := 0\<rparr>"
    and "last out = DATA_START"
  using assms by (auto simp add: setup_sketch_def Let_def split: if_splits option.splits)

lemma setup_detected:
  assumes "INA_begin env"
    and "measureBaseline g0 (baseline_startTime env) (baseline_polls env) = Some g1"
  shows "\<exists>out. setup_sketch n env g0
           = Returned (g1\<lparr>sessionStartTime := session_millis env, sampleCount := 0\<rparr>) out
         \<and> last out = DATA_START"
  using assms by (simp add: setup_sketch_def Let_def)

lemma error_loop_eq:
  "error_loop n out = out @ concat (replicate n [check_connections, Delay 5000])"
proof (induction n arbitrary: out)
  case 0
  then show ?case by simp
next
  case (Suc n)
  have "concat (replicate (Suc n) [check_connections, Delay 5000])
        = [check_connections, Delay 5000] @ concat (replicate n [check_connections, Delay 5000])"
    by simp
  with Suc show ?case by (simp del: replicate.simps)
qed

lemma setup_env0: "\<exists>out. setup_sketch 0 env0 boot = Returned g_session out"
  by (simp add: ev ev_setup)

section \<open>The claims\<close>

text \<open>
  C1. Every pass that prints adds to \<open>totalEnergy\<close> the power of that pass times the
  hours since \<open>lastTransmission\<close>, that is the milliseconds \<open>millis() - lastTransmission\<close>
  (on 32-bit words) over 3 600 000; the printed energy is the new total. The pass stores
  its own clock in \<open>lastTransmission\<close>, and the passes that print nothing leave it alone:
  from the second line on, the hours are counted from the clock of the line before.
\<close>

theorem energy_adds_power_times_elapsed_hours:
  "i < length (emitted g ticks) \<Longrightarrow>
   totalEnergy (e_after (emitted g ticks ! i))
     = totalEnergy (before g (emitted g ticks) i)
       + r_power (e_line (emitted g ticks ! i))
         * (real (unat (e_millis (emitted g ticks ! i)
                        - lastTransmission (before g (emitted g ticks) i))) / 3600000)
   \<and> r_totalEnergy (e_line (emitted g ticks ! i)) = totalEnergy (e_after (emitted g ticks ! i))
   \<and> lastTransmission (e_after (emitted g ticks ! i)) = e_millis (emitted g ticks ! i)
   \<and> (0 < i \<longrightarrow>
        lastTransmission (before g (emitted g ticks) i) = e_millis (emitted g ticks ! (i - 1)))"
proof -
  assume i: "i < length (emitted g ticks)"
  let ?es = "emitted g ticks"
  note step = loop_Some [OF emitted_nth [OF i]]
  have prev: "lastTransmission (before g ?es i) = e_millis (?es ! (i - 1))" if "0 < i"
  proof -
    from that i have "i - 1 < length ?es" by simp
    from loop_Some(10) [OF emitted_nth [OF this]] that show ?thesis
      by (simp add: before_def)
  qed
  from step(9) have "totalEnergy (e_after (?es ! i))
     = totalEnergy (before g ?es i)
       + r_power (e_line (?es ! i))
         * (real (unat (e_millis (?es ! i) - lastTransmission (before g ?es i))) / 3600000)"
    by simp
  with step(8) step(10) prev show ?thesis by blast
qed

theorem energy_adds_power_times_elapsed_hours_witness:
  "1 < length (emitted g_4000 T4)
   \<and> e_millis (emitted g_4000 T4 ! 0) = 4050
   \<and> e_millis (emitted g_4000 T4 ! 1) = 4150
   \<and> r_power (e_line (emitted g_4000 T4 ! 1)) = 484
   \<and> totalEnergy (e_after (emitted g_4000 T4 ! 1))
       = totalEnergy (e_after (emitted g_4000 T4 ! 0))
         + 484 * (real (unat (4150 - 4050 :: ulong)) / 3600000)"
proof -
  have len: "1 < length (emitted g_4000 T4)"
    by (simp add: ev)
  have vals: "e_millis (emitted g_4000 T4 ! 0) = 4050" "e_millis (emitted g_4000 T4 ! 1) = 4150"
    "r_power (e_line (emitted g_4000 T4 ! 1)) = 484"
    by (simp_all add: ev)
  from energy_adds_power_times_elapsed_hours [OF len] vals show ?thesis
    using len by (simp add: before_def)
qed

text \<open>
  C2 as stated fails. The timestamp is the 32-bit word \<open>millis() - sessionStartTime\<close>:
  after the start-up \<open>env0\<close>, a line printed 4294967286 ms into the session is followed,
  50 ms later, by a line whose timestamp is 40.
\<close>

theorem timestamp_wraps_counterexample:
  "returned_globals (setup_sketch 0 env0 boot) = Some g_session
   \<and> Suc 0 < length (emitted g_session T_wrap)
   \<and> r_timestamp (e_line (emitted g_session T_wrap ! 0)) = 4294967286
   \<and> r_timestamp (e_line (emitted g_session T_wrap ! Suc 0)) = 40
   \<and> \<not> r_timestamp (e_line (emitted g_session T_wrap ! 0))
         < r_timestamp (e_line (emitted g_session T_wrap ! Suc 0))"
  by (simp add: ev ev_setup)

text \<open>
  C2, amended. For two consecutive lines of a run: the second timestamp minus the first,
  as 32-bit words, is the difference of the clocks of the two passes and at least
  \<open>TRANSMISSION_INTERVAL\<close>; the timestamp grows strictly unless it passes \<open>2 ^ 32\<close>
  between the two; \<open>sampleCount\<close> after the second is one more (on 32-bit words) than
  after the first, so strictly larger unless it passes \<open>2 ^ 32\<close>; and the energy of the
  second line is no less than that of the first when the power of the second is not
  negative.
\<close>

theorem consecutive_lines_spaced_and_monotone:
  "Suc i < length (emitted g ticks) \<Longrightarrow>
   TRANSMISSION_INTERVAL
     \<le> r_timestamp (e_line (emitted g ticks ! Suc i)) - r_timestamp (e_line (emitted g ticks ! i))
   \<and> r_timestamp (e_line (emitted g ticks ! Suc i)) - r_timestamp (e_line (emitted g ticks ! i))
       = e_millis (emitted g ticks ! Suc i) - e_millis (emitted g ticks ! i)
   \<and> (unat (r_timestamp (e_line (emitted g ticks ! i)))
         + unat (e_millis (emitted g ticks ! Suc i) - e_millis (emitted g ticks ! i)) < 2 ^ 32 \<longrightarrow>
       r_timestamp (e_line (emitted g ticks ! i)) < r_timestamp (e_line (emitted g ticks ! Suc i)))
   \<and> sampleCount (e_after (emitted g ticks ! Suc i)) = sampleCount (e_after (emitted g ticks ! i)) + 1
   \<and> (unat (sampleCount (e_after (emitted g ticks ! i))) + 1 < 2 ^ 32 \<longrightarrow>
       sampleCount (e_after (emitted g ticks ! i)) < sampleCount (e_after (emitted g ticks ! Suc i)))
   \<and> (0 \<le> r_power (e_line (emitted g ticks ! Suc i)) \<longrightarrow>
       r_totalEnergy (e_line (emitted g ticks ! i)) \<le> r_totalEnergy (e_line (emitted g ticks ! Suc i)))"
proof -
  assume si: "Suc i < length (emitted g ticks)"
  let ?es = "emitted g ticks"
  let ?a = "?es ! i" and ?b = "?es ! Suc i"
  from si have i: "i < length ?es" by simp
  note A = loop_Some [OF emitted_nth [OF i]]
  have bb: "before g ?es (Suc i) = e_after ?a" by (simp add: before_def)
  note B = loop_Some [OF emitted_nth [OF si, unfolded bb]]
  have gap: "TRANSMISSION_INTERVAL \<le> e_millis ?b - e_millis ?a"
    using B(1) A(10) by simp
  have diff: "r_timestamp (e_line ?b) - r_timestamp (e_line ?a) = e_millis ?b - e_millis ?a"
    using A(3) B(3) A(12) by simp
  have nz: "e_millis ?b - e_millis ?a \<noteq> 0"
    using gap by (auto simp add: TRANSMISSION_INTERVAL_def)
  have ts: "r_timestamp (e_line ?b) = r_timestamp (e_line ?a) + (e_millis ?b - e_millis ?a)"
    using diff by (simp add: algebra_simps)
  have incr: "r_timestamp (e_line ?a) < r_timestamp (e_line ?b)"
    if "unat (r_timestamp (e_line ?a)) + unat (e_millis ?b - e_millis ?a) < 2 ^ 32"
    using word_add_no_wrap_less [OF that nz] ts by simp
  have cnt: "sampleCount (e_after ?b) = sampleCount (e_after ?a) + 1"
    using B(11) .
  have cnt_incr: "sampleCount (e_after ?a) < sampleCount (e_after ?b)"
    if "unat (sampleCount (e_after ?a)) + 1 < 2 ^ 32"
    using word_add_no_wrap_less [of "sampleCount (e_after ?a)" 1] that cnt by simp
  have en: "r_totalEnergy (e_line ?a) \<le> r_totalEnergy (e_line ?b)"
    if "0 \<le> r_power (e_line ?b)"
  proof -
    have "0 \<le> real (unat (e_millis ?b - lastTransmission (e_after ?a))) / 1000 / 3600"
      by (intro divide_nonneg_nonneg of_nat_0_le_iff) simp_all
    from mult_nonneg_nonneg [OF that this] A(8) B(8) B(9) show ?thesis
      by linarith
  qed
  from gap diff incr cnt cnt_incr en show ?thesis by simp
qed

theorem consecutive_lines_spaced_and_monotone_witness:
  "Suc 0 < length (emitted g_4000 T4)
   \<and> TRANSMISSION_INTERVAL
       \<le> r_timestamp (e_line (emitted g_4000 T4 ! Suc 0))
         - r_timestamp (e_line (emitted g_4000 T4 ! 0))
   \<and> r_timestamp (e_line (emitted g_4000 T4 ! 0))
       < r_timestamp (e_line (emitted g_4000 T4 ! Suc 0))
   \<and> sampleCount (e_after (emitted g_4000 T4 ! 0))
       < sampleCount (e_after (emitted g_4000 T4 ! Suc 0))
   \<and> r_totalEnergy (e_line (emitted g_4000 T4 ! 0))
       \<le> r_totalEnergy (e_line (emitted g_4000 T4 ! Suc 0))"
proof -
  have len: "Suc 0 < length (emitted g_4000 T4)"
    by (simp add: ev)
  have h1: "unat (r_timestamp (e_line (emitted g_4000 T4 ! 0)))
         + unat (e_millis (emitted g_4000 T4 ! Suc 0) - e_millis (emitted g_4000 T4 ! 0)) < 2 ^ 32"
    by (simp add: ev)
  have h2: "unat (sampleCount (e_after (emitted g_4000 T4 ! 0))) + 1 < 2 ^ 32"
    by (simp add: ev)
  have h3: "0 \<le> r_power (e_line (emitted g_4000 T4 ! Suc 0))"
    by (simp add: ev)
  from consecutive_lines_spaced_and_monotone [OF len] h1 h2 h3 len show ?thesis
    by blast
qed

text \<open>
  C3. When \<open>setup()\<close> has returned, every line of the run that follows carries as
  \<open>current\<close> the corrected absolute reading of its own pass and as \<open>netCurrent\<close> that
  current minus \<open>baselineCurrent\<close>, which is still the value \<open>measureBaseline()\<close> stored
  during \<open>setup()\<close>.
\<close>

theorem net_current_is_current_minus_baseline:
  "setup_sketch n env g0 = Returned g out \<Longrightarrow> e \<in> set (emitted g ticks) \<Longrightarrow>
   (\<exists>g1. measureBaseline g0 (baseline_startTime env) (baseline_polls env) = Some g1
      \<and> baselineCurrent g = baselineCurrent g1)
   \<and> r_current (e_line e) = abs (getCurrent_mA (e_sensor e)) * CORRECTION_FACTOR
   \<and> r_netCurrent (e_line e) = r_current (e_line e) - baselineCurrent g"
proof -
  assume s: "setup_sketch n env g0 = Returned g out" and m: "e \<in> set (emitted g ticks)"
  from emitted_mem [OF m] obtain g1
    where l: "loop g1 (e_millis e) (e_sensor e) = (e_after e, Some (e_line e))"
      and b: "baselineCurrent g1 = baselineCurrent g" by blast
  from setup_Returned(2) [OF s]
  have "\<exists>g1. measureBaseline g0 (baseline_startTime env) (baseline_polls env) = Some g1
      \<and> baselineCurrent g = baselineCurrent g1"
    by auto
  with loop_Some(5,7) [OF l] b show ?thesis by simp
qed

theorem net_current_is_current_minus_baseline_witness:
  "returned_globals (setup_sketch 0 env0 boot) = Some g_session
   \<and> emitted g_session T4 ! 0 \<in> set (emitted g_session T4)
   \<and> baselineCurrent g_session = 363 / 25
   \<and> r_current (e_line (emitted g_session T4 ! 0)) = 100 * CORRECTION_FACTOR
   \<and> r_netCurrent (e_line (emitted g_session T4 ! 0)) = 100 * CORRECTION_FACTOR - 363 / 25"
proof -
  from setup_env0 obtain out where s: "setup_sketch 0 env0 boot = Returned g_session out" ..
  have len: "0 < length (emitted g_session T4)"
    by (simp add: ev)
  then have m: "emitted g_session T4 ! 0 \<in> set (emitted g_session T4)"
    by (rule nth_mem)
  have vals: "getCurrent_mA (e_sensor (emitted g_session T4 ! 0)) = 100"
    "baselineCurrent g_session = 363 / 25"
    by (simp_all add: ev)
  from net_current_is_current_minus_baseline [OF s m] vals s m show ?thesis
    by simp
qed

text \<open>
  C4. Every line of a run carries as \<open>power\<close> the product of its \<open>voltage\<close> and its
  \<open>current\<close>, which are the bus voltage and the corrected absolute current read in the
  pass that printed it.
\<close>

theorem power_is_voltage_times_current:
  "e \<in> set (emitted g ticks) \<Longrightarrow>
   r_power (e_line e) = r_voltage (e_line e) * r_current (e_line e)
   \<and> r_voltage (e_line e) = getBusVoltage (e_sensor e)
   \<and> r_current (e_line e) = abs (getCurrent_mA (e_sensor e)) * CORRECTION_FACTOR"
proof -
  assume "e \<in> set (emitted g ticks)"
  from emitted_mem [OF this] obtain g1
    where "loop g1 (e_millis e) (e_sensor e) = (e_after e, Some (e_line e))" by blast
  from loop_Some(4,5,6) [OF this] show ?thesis by simp
qed

theorem power_is_voltage_times_current_witness:
  "emitted g_4000 T4 ! 1 \<in> set (emitted g_4000 T4)
   \<and> r_power (e_line (emitted g_4000 T4 ! 1)) = 5 * (abs 100 * CORRECTION_FACTOR)"
proof -
  have len: "1 < length (emitted g_4000 T4)"
    by (simp add: ev)
  then have m: "emitted g_4000 T4 ! 1 \<in> set (emitted g_4000 T4)"
    by (rule nth_mem)
  have vals: "getBusVoltage (e_sensor (emitted g_4000 T4 ! 1)) = 5"
    "getCurrent_mA (e_sensor (emitted g_4000 T4 ! 1)) = 100"
    by (simp_all add: ev)
  from power_is_voltage_times_current [OF m] vals m show ?thesis by simp
qed

text \<open>
  C5. When every poll of \<open>pre\<close> falls inside the 2000 ms window and the next poll is the
  first outside it, \<open>measureBaseline()\<close> has looked at every poll of \<open>pre\<close> and stores
  the sum of the corrected absolute readings of the ready ones divided by their number,
  and 0 when none was ready. \<open>setup()\<close> then returns, its last line being the sentinel.
\<close>

theorem baseline_is_mean_of_ready_samples:
  "\<forall>p \<in> set pre. fst p - startTime < 2000 \<Longrightarrow> \<not> t_end - startTime < 2000 \<Longrightarrow>
   measureBaseline g startTime (pre @ (t_end, x) # rest)
     = Some (g\<lparr>baselineCurrent := spec_baseline (ready_polls pre)\<rparr>)
   \<and> (ready_polls pre = [] \<longrightarrow> spec_baseline (ready_polls pre) = 0)
   \<and> (INA_begin env \<and> baseline_startTime env = startTime
        \<and> baseline_polls env = pre @ (t_end, x) # rest \<longrightarrow>
      (\<exists>out. setup_sketch n env g
           = Returned (g\<lparr>baselineCurrent := spec_baseline (ready_polls pre),
                          sessionStartTime := session_millis env, sampleCount := 0\<rparr>) out
         \<and> last out = DATA_START))"
proof -
  assume w: "\<forall>p \<in> set pre. fst p - startTime < 2000" "\<not> t_end - startTime < 2000"
  note m = measureBaseline_window [OF w, of g x rest]
  have "\<exists>out. setup_sketch n env g
           = Returned (g\<lparr>baselineCurrent := spec_baseline (ready_polls pre),
                          sessionStartTime := session_millis env, sampleCount := 0\<rparr>) out
         \<and> last out = DATA_START"
    if "INA_begin env" "baseline_startTime env = startTime"
      "baseline_polls env = pre @ (t_end, x) # rest"
    using setup_detected [of env g "g\<lparr>baselineCurrent := spec_baseline (ready_polls pre)\<rparr>" n]
      that m by simp
  with m show ?thesis by (simp add: spec_baseline_def)
qed

theorem baseline_is_mean_of_ready_samples_witness:
  "measureBaseline boot 2000 (baseline_polls env0) = Some (boot\<lparr>baselineCurrent := 363 / 25\<rparr>)
   \<and> measureBaseline boot 2000 (baseline_polls env_stalled) = Some (boot\<lparr>baselineCurrent := 0\<rparr>)"
proof -
  let ?pre = "[(2000, ready_10mA), (2010, not_ready), (3990, ready_minus20mA)]
                :: (ulong \<times> sensor) list"
  let ?pre' = "[(2000, not_ready), (3000, not_ready)] :: (ulong \<times> sensor) list"
  have a1: "\<forall>p \<in> set ?pre. fst p - 2000 < 2000" by simp
  have a2: "\<forall>p \<in> set ?pre'. fst p - 2000 < 2000" by simp
  have e: "\<not> (4000 :: ulong) - 2000 < 2000" by simp
  have m: "spec_baseline (ready_polls ?pre) = 363 / 25"
    by (simp add: spec_baseline_def ready_polls_def ready_10mA_def not_ready_def
        ready_minus20mA_def CORRECTION_FACTOR_def)
  have m': "ready_polls ?pre' = []"
    by (simp add: ready_polls_def not_ready_def)
  from baseline_is_mean_of_ready_samples [OF a1 e, of boot not_ready "[]"]
    baseline_is_mean_of_ready_samples [OF a2 e, of boot not_ready "[]"] m m'
  show ?thesis
    by (simp add: env0_def env_stalled_def)
qed

text \<open>
  C6. A pass whose clock is less than \<open>TRANSMISSION_INTERVAL\<close> past \<open>lastTransmission\<close>
  prints nothing and returns the globals it was given, all five of them; a run gains no
  line from it.
\<close>

theorem early_pass_changes_nothing:
  "currentMillis - lastTransmission g < TRANSMISSION_INTERVAL \<Longrightarrow>
   loop g currentMillis ina = (g, None)
   \<and> emitted g ((currentMillis, ina) # ticks) = emitted g ticks"
  by (simp add: loop_def not_le [symmetric])

theorem early_pass_changes_nothing_witness:
  "(4070 :: ulong) - lastTransmission (boot\<lparr>lastTransmission := 4050\<rparr>) < TRANSMISSION_INTERVAL
   \<and> loop (boot\<lparr>lastTransmission := 4050\<rparr>) 4070 ready_5V_100mA
       = (boot\<lparr>lastTransmission := 4050\<rparr>, None)"
proof -
  have h: "(4070 :: ulong) - lastTransmission (boot\<lparr>lastTransmission := 4050\<rparr>)
             < TRANSMISSION_INTERVAL"
    by (simp add: TRANSMISSION_INTERVAL_def)
  from early_pass_changes_nothing [OF h, of ready_5V_100mA "[]"] h show ?thesis
    by blast
qed

text \<open>
  C7. A pass at which the interval has elapsed but the sensor is not ready prints
  nothing and returns the globals it was given, \<open>lastTransmission\<close> included. The very
  next pass, even at the same clock, prints as soon as the sensor is ready, with that
  clock as its time. And whenever a pass changes \<open>lastTransmission\<close> it has printed a
  line and stored its own clock.
\<close>

theorem not_ready_pass_changes_nothing:
  "TRANSMISSION_INTERVAL \<le> now - lastTransmission g \<Longrightarrow> \<not> isConversionReady ina \<Longrightarrow>
   loop g now ina = (g, None)
   \<and> (isConversionReady ina' \<longrightarrow>
        (\<exists>g' r. loop (fst (loop g now ina)) now ina' = (g', Some r)
           \<and> r_timestamp r = now - sessionStartTime g \<and> lastTransmission g' = now))
   \<and> (lastTransmission (fst (loop g1 now1 ina1)) \<noteq> lastTransmission g1 \<longrightarrow>
        (\<exists>r. snd (loop g1 now1 ina1) = Some r)
        \<and> lastTransmission (fst (loop g1 now1 ina1)) = now1)"
  by (auto simp add: loop_def Let_def)

theorem not_ready_pass_changes_nothing_witness:
  "TRANSMISSION_INTERVAL \<le> 4050 - lastTransmission g_4000
   \<and> \<not> isConversionReady not_ready
   \<and> loop g_4000 4050 not_ready = (g_4000, None)
   \<and> isConversionReady ready_5V_100mA
   \<and> (\<exists>g' r. loop (fst (loop g_4000 4050 not_ready)) 4050 ready_5V_100mA = (g', Some r)
         \<and> r_timestamp r = 4050 - sessionStartTime g_4000 \<and> lastTransmission g' = 4050)"
proof -
  have h1: "TRANSMISSION_INTERVAL \<le> 4050 - lastTransmission g_4000"
    by (simp add: g_4000_def boot_def TRANSMISSION_INTERVAL_def)
  have h2: "\<not> isConversionReady not_ready"
    by (simp add: not_ready_def)
  have h3: "isConversionReady ready_5V_100mA"
    by (simp add: ready_5V_100mA_def)
  from not_ready_pass_changes_nothing [OF h1 h2, of ready_5V_100mA] h1 h2 h3 show ?thesis
    by blast
qed

text \<open>
  C8. The code at the start-up \<open>env0\<close>, whose session starts at 4000 ms, with a first
  pass at 4050 ms (5 V, 100 mA): \<open>setup()\<close> leaves \<open>lastTransmission\<close> at its
  initialiser 0, so the first line, 50 ms into the session, carries the energy of
  4050 ms at 484 mW, not that of the 50 ms since \<open>sessionStartTime\<close>.
\<close>

theorem first_line_energy_counts_from_boot:
  "returned_globals (setup_sketch 0 env0 boot) = Some g_session
   \<and> sessionStartTime g_session = 4000
   \<and> lastTransmission g_session = 0
   \<and> map e_line (emitted g_session [(4050, ready_5V_100mA)])
       = [\<lparr>r_timestamp = 50, r_voltage = 5, r_current = 484 / 5, r_netCurrent = 2057 / 25,
            r_power = 484, r_totalEnergy = 484 * (4050 / 3600000)\<rparr>]
   \<and> 484 * (4050 / 3600000)
       \<noteq> (484 :: real) * (real (unat (4050 - sessionStartTime g_session)) / 3600000)"
  by (simp add: ev ev_setup)

text \<open>
  C9. When \<open>INA.begin()\<close> fails, \<open>setup()\<close> never returns: after any number \<open>n\<close> of
  iterations of its \<open>while(1)\<close> the output of the program is the header, the error line
  and \<open>n\<close> times the diagnostic line followed by \<open>delay(5000)\<close>, and one more iteration
  appends one more of these. The sentinel is not in the output, nor is any line of data,
  whatever passes of \<open>loop()\<close> are offered.
\<close>

theorem absent_sensor_never_starts:
  "\<not> INA_begin env \<Longrightarrow>
   program n env ticks
     = header @ [Println ''# ERROR: INA226 not detected!'']
       @ concat (replicate n [check_connections, Delay 5000])
   \<and> program (Suc n) env ticks = program n env ticks @ [check_connections, Delay 5000]
   \<and> DATA_START \<notin> set (program n env ticks)
   \<and> data_line r \<notin> set (program n env ticks)
   \<and> setup_sketch n env g \<noteq> Returned g' out"
proof -
  assume a: "\<not> INA_begin env"
  have p: "program k env ticks
     = header @ [Println ''# ERROR: INA226 not detected!'']
       @ concat (replicate k [check_connections, Delay 5000])" for k
    using a by (simp add: program_def setup_sketch_def error_loop_eq)
  have s: "set (concat (replicate n [check_connections, Delay 5000]))
           \<subseteq> {check_connections, Delay 5000}"
    by (induction n) auto
  have d: "DATA_START \<notin> set (program n env ticks)"
    using s by (auto simp add: p header_def DATA_START_def check_connections_def)
  have r: "data_line r \<notin> set (program n env ticks)"
    using s by (auto simp add: p header_def data_line_def check_connections_def)
  have "replicate (Suc n) [check_connections, Delay 5000]
          = replicate n [check_connections, Delay 5000] @ [[check_connections, Delay 5000]]"
    by (simp add: replicate_append_same)
  then have "concat (replicate (Suc n) [check_connections, Delay 5000])
          = concat (replicate n [check_connections, Delay 5000]) @ [check_connections, Delay 5000]"
    by (simp del: replicate.simps)
  then have grow:
    "program (Suc n) env ticks = program n env ticks @ [check_connections, Delay 5000]"
    by (simp add: p del: replicate.simps)
  have "setup_sketch n env g \<noteq> Returned g' out"
    using a by (simp add: setup_sketch_def)
  with p d r grow show ?thesis by blast
qed

theorem absent_sensor_never_starts_witness:
  "\<not> INA_begin env_absent
   \<and> program 2 env_absent T4
       = header @ [Println ''# ERROR: INA226 not detected!'',
                   check_connections, Delay 5000, check_connections, Delay 5000]
   \<and> DATA_START \<notin> set (program 2 env_absent T4)"
proof -
  have a: "\<not> INA_begin env_absent"
    by (simp add: env_absent_def)
  note c = absent_sensor_never_starts [OF a, of 2 T4]
  from c have p: "program 2 env_absent T4
     = header @ [Println ''# ERROR: INA226 not detected!'']
       @ concat (replicate 2 [check_connections, Delay 5000])"
    by blast
  from c have d: "DATA_START \<notin> set (program 2 env_absent T4)"
    by blast
  have "concat (replicate 2 [check_connections, Delay 5000])
          = [check_connections, Delay 5000, check_connections, Delay 5000]"
    by (simp add: numeral_2_eq_2)
  with a p d show ?thesis by simp
qed

text \<open>
  C10. A line printed in a pass whose corrected absolute current is below
  \<open>baselineCurrent\<close> carries a strictly negative \<open>netCurrent\<close>; its \<open>current\<close> is still
  the corrected absolute reading, not negative, and its \<open>power\<close> the bus voltage times
  that current.
\<close>

theorem net_current_goes_negative:
  "e \<in> set (emitted g ticks) \<Longrightarrow>
   abs (getCurrent_mA (e_sensor e)) * CORRECTION_FACTOR < baselineCurrent g \<Longrightarrow>
   r_netCurrent (e_line e) < 0
   \<and> r_current (e_line e) = abs (getCurrent_mA (e_sensor e)) * CORRECTION_FACTOR
   \<and> 0 \<le> r_current (e_line e)
   \<and> r_power (e_line e)
       = getBusVoltage (e_sensor e) * (abs (getCurrent_mA (e_sensor e)) * CORRECTION_FACTOR)"
proof -
  assume m: "e \<in> set (emitted g ticks)"
    and low: "abs (getCurrent_mA (e_sensor e)) * CORRECTION_FACTOR < baselineCurrent g"
  from emitted_mem [OF m] obtain g1
    where l: "loop g1 (e_millis e) (e_sensor e) = (e_after e, Some (e_line e))"
      and b: "baselineCurrent g1 = baselineCurrent g" by blast
  have "0 \<le> abs (getCurrent_mA (e_sensor e)) * CORRECTION_FACTOR"
    by (simp add: CORRECTION_FACTOR_def)
  with loop_Some(5,6,7) [OF l] b low show ?thesis by simp
qed

theorem net_current_goes_negative_witness:
  "emitted g_base12 T_low ! 0 \<in> set (emitted g_base12 T_low)
   \<and> abs (getCurrent_mA (e_sensor (emitted g_base12 T_low ! 0))) * CORRECTION_FACTOR
       < baselineCurrent g_base12
   \<and> r_netCurrent (e_line (emitted g_base12 T_low ! 0)) < 0
   \<and> r_current (e_line (emitted g_base12 T_low ! 0)) = 5 * CORRECTION_FACTOR
   \<and> r_power (e_line (emitted g_base12 T_low ! 0)) = 5 * (5 * CORRECTION_FACTOR)"
proof -
  have len: "0 < length (emitted g_base12 T_low)"
    by (simp add: ev)
  then have m: "emitted g_base12 T_low ! 0 \<in> set (emitted g_base12 T_low)"
    by (rule nth_mem)
  have vals: "getBusVoltage (e_sensor (emitted g_base12 T_low ! 0)) = 5"
    "getCurrent_mA (e_sensor (emitted g_base12 T_low ! 0)) = - 5"
    by (simp_all add: ev)
  have low: "abs (getCurrent_mA (e_sensor (emitted g_base12 T_low ! 0))) * CORRECTION_FACTOR
               < baselineCurrent g_base12"
    by (simp add: ev)
  from net_current_goes_negative [OF m low] vals m low show ?thesis by simp
qed

end
